theory Spec2Isabelle
  imports Main "HOL-Library.Word"
begin

section \<open>The MQTT session manager of esp32-ble2mqtt (src/src/mqtt.c)\<close>

text \<open>
  The module keeps a process-wide session: a namespace prefix, the list of active
  subscriptions, the list of publications made while disconnected, a connectivity flag and
  two optional application callbacks. This theory embeds every function of mqtt.c.

  Conventions of the embedding.
  \<^item> A C string is the list of its characters before the terminating NUL; \<open>strcmp\<close>
    is equality of these lists.
  \<^item> A pointer that may be \<open>NULL\<close> is an \<open>option\<close>. Function pointers and context
    pointers are opaque: they are natural-number identifiers.
  \<^item> The transport (esp_mqtt) and the application callbacks are outside the module. Each
    call made to them is appended to the \<open>trace\<close> of the session, in program order. The
    boolean a transport call returns is given by a parameter \<open>tr\<close>, a function of the trace
    up to and including that call; every run of a real transport is described by some \<open>tr\<close>,
    since the trace grows with each call.
  \<^item> Logging (\<open>ESP_LOGx\<close>) is left out.
  \<^item> The model is at the level of values. Where the C code has no defined behaviour (a
    read past the end of a buffer, a read of a string after its \<open>free\<close>, a call
    through a NULL function pointer, a second \<open>free\<close> of a block the module itself
    allocated) the model returns an \<open>error\<close>. Blocks that belong to the caller (the
    \<open>topic_in\<close> arguments of the public operations, the prefix handed to
    \<open>mqtt_connect\<close>) are outside the model: whether the caller may have them released
    is not decided here.
\<close>

subsection \<open>Types\<close>

type_synonym uint8_t = "8 word"

datatype error = OutOfBounds | UseAfterFree | NullCall | DoubleFree

text \<open>\<open>struct mqtt_subscription_t\<close>; the \<open>next\<close> pointer is the tail of the list.\<close>

record mqtt_subscription_t =
  sub_topic :: string
  sub_cb :: "nat option"
  sub_ctx :: "nat option"
  sub_free_cb :: "nat option"

text \<open>\<open>struct mqtt_publications_t\<close>.\<close>

record mqtt_publications_t =
  pub_topic :: string
  pub_payload :: "uint8_t list"
  pub_len :: nat
  pub_qos :: int
  pub_retained :: uint8_t

datatype esp_mqtt_status_t = ESP_MQTT_STATUS_DISCONNECTED | ESP_MQTT_STATUS_CONNECTED

text \<open>The calls that leave the module: to the transport and to application callbacks.\<close>

datatype effect =
    Transport_init nat nat
  | Transport_start string "16 word" string "string option" "string option"
  | Transport_stop
  | Transport_subscribe string int
  | Transport_unsubscribe string
  | Transport_publish string "uint8_t list" nat int uint8_t
  | App_connected nat
  | App_disconnected nat
  | App_message nat string "uint8_t list" nat "nat option"
  | App_free_ctx nat nat

type_synonym transport = "effect list \<Rightarrow> bool"

text \<open>The static variables of mqtt.c, and the trace of outgoing calls.\<close>

record session =
  prefix :: "string option"
  subscription_list :: "mqtt_subscription_t list"
  publications_list :: "mqtt_publications_t list"
  is_connected :: uint8_t
  on_connected_cb :: "nat option"
  on_disconnected_cb :: "nat option"
  trace :: "effect list"

definition initial_session :: session where
  "initial_session =
     \<lparr>prefix = None, subscription_list = [], publications_list = [], is_connected = 0,
      on_connected_cb = None, on_disconnected_cb = None, trace = []\<rparr>"

subsection \<open>Topic namespacer\<close>

text \<open>\<open>mqtt_add_prefix\<close>: the topic itself when no prefix or an empty one is configured,
  else a new string holding the prefix followed by the topic.\<close>

definition mqtt_add_prefix :: "string option \<Rightarrow> string \<Rightarrow> string" where
  "mqtt_add_prefix p topic =
     (case p of
        None \<Rightarrow> topic
      | Some pre \<Rightarrow> if pre = [] then topic else pre @ topic)"

text \<open>Whether \<open>mqtt_add_prefix\<close> releases its argument: \<open>free(topic)\<close> after the
  new string is built, that is, whenever a non-empty prefix is configured.\<close>

definition mqtt_add_prefix_frees :: "string option \<Rightarrow> bool" where
  "mqtt_add_prefix_frees p =
     (case p of
        None \<Rightarrow> False
      | Some pre \<Rightarrow> pre \<noteq> [])"

text \<open>\<open>mqtt_remove_prefix\<close>. The test is \<open>if (memcmp(topic, prefix, strlen(prefix)))\<close>:
  the branch that strips is taken when the leading bytes DIFFER from the prefix. It then
  duplicates the string starting \<open>strlen(prefix)\<close> bytes into \<open>topic\<close>; when the topic is
  shorter than the prefix that start lies beyond the terminator, an out-of-bounds read.\<close>

definition mqtt_remove_prefix :: "string option \<Rightarrow> string \<Rightarrow> error + string" where
  "mqtt_remove_prefix p topic =
     (case p of
        None \<Rightarrow> Inr topic
      | Some pre \<Rightarrow>
          if pre = [] then Inr topic
          else if length topic < length pre then Inl OutOfBounds
          else if take (length pre) topic \<noteq> pre then Inr (drop (length pre) topic)
          else Inr topic)"

text \<open>Whether \<open>mqtt_remove_prefix\<close> releases its argument (\<open>free(topic)\<close> in the branch
  that strips).\<close>

definition mqtt_remove_prefix_frees :: "string option \<Rightarrow> string \<Rightarrow> bool" where
  "mqtt_remove_prefix_frees p topic =
     (case p of
        None \<Rightarrow> False
      | Some pre \<Rightarrow> pre \<noteq> [] \<and> take (length pre) topic \<noteq> pre)"

subsection \<open>Callback registration\<close>

definition mqtt_set_on_connected_cb :: "nat option \<Rightarrow> session \<Rightarrow> session" where
  "mqtt_set_on_connected_cb cb s = s\<lparr>on_connected_cb := cb\<rparr>"

definition mqtt_set_on_disconnected_cb :: "nat option \<Rightarrow> session \<Rightarrow> session" where
  "mqtt_set_on_disconnected_cb cb s = s\<lparr>on_disconnected_cb := cb\<rparr>"

subsection \<open>Subscription list\<close>

text \<open>\<open>mqtt_subscription_add\<close> walks to the end of the list and links the new record
  there.\<close>

definition mqtt_subscription_add ::
  "mqtt_subscription_t list \<Rightarrow> string \<Rightarrow> nat option \<Rightarrow> nat option \<Rightarrow> nat option
     \<Rightarrow> mqtt_subscription_t list" where
  "mqtt_subscription_add list topic cb ctx free_cb =
     list @ [\<lparr>sub_topic = topic, sub_cb = cb, sub_ctx = ctx, sub_free_cb = free_cb\<rparr>]"

text \<open>\<open>mqtt_subscription_free\<close> calls the context destructor when both the context and
  the destructor are non-NULL.\<close>

definition mqtt_subscription_free :: "mqtt_subscription_t \<Rightarrow> session \<Rightarrow> session" where
  "mqtt_subscription_free sub s =
     (case (sub_ctx sub, sub_free_cb sub) of
        (Some c, Some f) \<Rightarrow> s\<lparr>trace := trace s @ [App_free_ctx f c]\<rparr>
      | _ \<Rightarrow> s)"

text \<open>\<open>mqtt_subscriptions_free\<close>: pops and frees the head until the list is empty. The
  result is the list left behind and the session.\<close>

fun mqtt_subscriptions_free ::
  "mqtt_subscription_t list \<Rightarrow> session \<Rightarrow> mqtt_subscription_t list \<times> session" where
  "mqtt_subscriptions_free [] s = ([], s)"
| "mqtt_subscriptions_free (cur # rest) s =
     mqtt_subscriptions_free rest (mqtt_subscription_free cur s)"

text \<open>\<open>strncmp(a, b, n) == 0\<close> on C strings.\<close>

definition strncmp_eq :: "string \<Rightarrow> string \<Rightarrow> nat \<Rightarrow> bool" where
  "strncmp_eq a b n = (take n a = take n b)"

text \<open>\<open>mqtt_subscription_remove\<close>: stops at the first record for which
  \<open>strncmp((*cur)->topic, topic, strlen(topic))\<close> is 0, unlinks and frees it.\<close>

fun mqtt_subscription_remove ::
  "mqtt_subscription_t list \<Rightarrow> string \<Rightarrow> session \<Rightarrow> mqtt_subscription_t list \<times> session" where
  "mqtt_subscription_remove [] topic s = ([], s)"
| "mqtt_subscription_remove (cur # rest) topic s =
     (if strncmp_eq (sub_topic cur) topic (length topic)
      then (rest, mqtt_subscription_free cur s)
      else (let (l, s') = mqtt_subscription_remove rest topic s in (cur # l, s')))"

subsection \<open>Publication list\<close>

text \<open>\<open>mqtt_publication_add\<close> copies \<open>len\<close> bytes of the payload and links the new entry
  at the HEAD of the list (\<open>pub->next = *list; *list = pub\<close>). Copying more bytes than the
  caller's buffer holds is an out-of-bounds read.\<close>

definition mqtt_publication_add ::
  "mqtt_publications_t list \<Rightarrow> string \<Rightarrow> uint8_t list \<Rightarrow> nat \<Rightarrow> int \<Rightarrow> uint8_t
     \<Rightarrow> error + mqtt_publications_t list" where
  "mqtt_publication_add list topic payload len qos retained =
     (if length payload < len then Inl OutOfBounds
      else Inr (\<lparr>pub_topic = topic, pub_payload = take len payload, pub_len = len,
                 pub_qos = qos, pub_retained = retained\<rparr> # list))"

text \<open>\<open>mqtt_publication_free\<close> releases the topic, the payload and the entry. The
  flag says whether the topic block of the entry has been released before; then
  \<open>free(mqtt_publication->topic)\<close> is a second \<open>free\<close> of the same block.\<close>

definition mqtt_publication_free :: "mqtt_publications_t \<times> bool \<Rightarrow> error + unit" where
  "mqtt_publication_free mqtt_publication =
     (if snd mqtt_publication then Inl DoubleFree else Inr ())"

text \<open>\<open>mqtt_publications_free\<close>: pops and frees the head until the list is empty. Every
  entry comes with the state of its topic block.\<close>

fun mqtt_publications_free ::
  "(mqtt_publications_t \<times> bool) list \<Rightarrow> error + mqtt_publications_t list" where
  "mqtt_publications_free [] = Inr []"
| "mqtt_publications_free (cur # rest) =
     (case mqtt_publication_free cur of
        Inl e \<Rightarrow> Inl e
      | Inr _ \<Rightarrow> mqtt_publications_free rest)"

subsection \<open>Transport calls\<close>

definition esp_mqtt_subscribe :: "transport \<Rightarrow> string \<Rightarrow> int \<Rightarrow> session \<Rightarrow> bool \<times> session" where
  "esp_mqtt_subscribe tr topic qos s =
     (let t = trace s @ [Transport_subscribe topic qos] in (tr t, s\<lparr>trace := t\<rparr>))"

definition esp_mqtt_unsubscribe :: "transport \<Rightarrow> string \<Rightarrow> session \<Rightarrow> bool \<times> session" where
  "esp_mqtt_unsubscribe tr topic s =
     (let t = trace s @ [Transport_unsubscribe topic] in (tr t, s\<lparr>trace := t\<rparr>))"

definition esp_mqtt_publish ::
  "transport \<Rightarrow> string \<Rightarrow> uint8_t list \<Rightarrow> nat \<Rightarrow> int \<Rightarrow> uint8_t \<Rightarrow> session \<Rightarrow> bool \<times> session" where
  "esp_mqtt_publish tr topic payload len qos retained s =
     (let t = trace s @ [Transport_publish topic payload len qos retained]
      in (tr t, s\<lparr>trace := t\<rparr>))"

subsection \<open>Public operations\<close>

text \<open>\<open>mqtt_publish\<close>: returns \<open>esp_mqtt_publish(...) != true\<close> when connected, else
  queues the publication and returns 0.\<close>

definition mqtt_publish ::
  "transport \<Rightarrow> string \<Rightarrow> uint8_t list \<Rightarrow> nat \<Rightarrow> int \<Rightarrow> uint8_t \<Rightarrow> session
     \<Rightarrow> error + (int \<times> session)" where
  "mqtt_publish tr topic_in payload len qos retained s =
     (let topic = mqtt_add_prefix (prefix s) topic_in in
      if is_connected s \<noteq> 0
      then (let (ok, s') = esp_mqtt_publish tr topic payload len qos retained s
            in Inr (if ok \<noteq> True then 1 else 0, s'))
      else (case mqtt_publication_add (publications_list s) topic payload len qos retained of
              Inl e \<Rightarrow> Inl e
            | Inr l \<Rightarrow> Inr (0, s\<lparr>publications_list := l\<rparr>)))"

text \<open>\<open>mqtt_publications_publish\<close> walks the list from its head and hands every entry to
  \<open>mqtt_publish\<close>, whose result it ignores. The argument it passes is the entry's own
  \<open>list->topic\<close>, which \<open>mqtt_add_prefix\<close> (called by \<open>mqtt_publish\<close>) releases when
  a prefix is configured. The walk returns the entries it has visited, each with the state
  of its topic block (\<open>True\<close>: released), and the session.\<close>

fun mqtt_publications_publish ::
  "transport \<Rightarrow> mqtt_publications_t list \<Rightarrow> session
     \<Rightarrow> error + ((mqtt_publications_t \<times> bool) list \<times> session)" where
  "mqtt_publications_publish tr [] s = Inr ([], s)"
| "mqtt_publications_publish tr (cur # rest) s =
     (case mqtt_publish tr (pub_topic cur) (pub_payload cur) (pub_len cur) (pub_qos cur)
             (pub_retained cur) s of
        Inl e \<Rightarrow> Inl e
      | Inr (_, s') \<Rightarrow>
          (case mqtt_publications_publish tr rest s' of
             Inl e \<Rightarrow> Inl e
           | Inr (visited, s'') \<Rightarrow>
               Inr ((cur, mqtt_add_prefix_frees (prefix s)) # visited, s'')))"

text \<open>The loop of \<open>mqtt_subscribe\<close>:
  \<open>while ((esp_mqtt_subscribe(topic, qos) != true) && retries < 3) retries++;\<close>
  The transport is called before \<open>retries\<close> is tested.\<close>

function mqtt_subscribe_loop ::
  "transport \<Rightarrow> string \<Rightarrow> int \<Rightarrow> uint8_t \<Rightarrow> session \<Rightarrow> uint8_t \<times> session" where
  "mqtt_subscribe_loop tr topic qos retries s =
     (let (ok, s') = esp_mqtt_subscribe tr topic qos s in
      if ok \<noteq> True \<and> retries < 3
      then mqtt_subscribe_loop tr topic qos (retries + 1) s'
      else (retries, s'))"
  by pat_completeness auto
termination
proof (relation "measure (\<lambda>(tr, topic, qos, retries, s). 3 - unat retries)")
  show "wf (measure (\<lambda>(tr, topic, qos, retries, s). 3 - unat retries))"
    by simp
next
  fix tr :: transport and topic :: string and qos :: int and retries :: uint8_t
    and s :: session and x :: "bool \<times> session" and ok :: bool and s' :: session
  assume "ok \<noteq> True \<and> retries < 3"
  then have lt: "unat retries < 3"
    by (simp add: word_less_nat_alt)
  then have "unat (retries + 1) = unat retries + 1"
    by (simp add: unat_word_ariths)
  with lt show "((tr, topic, qos, retries + 1, s'), (tr, topic, qos, retries, s))
      \<in> measure (\<lambda>(tr, topic, qos, retries, s). 3 - unat retries)"
    by simp
qed

definition mqtt_subscribe ::
  "transport \<Rightarrow> string \<Rightarrow> int \<Rightarrow> nat option \<Rightarrow> nat option \<Rightarrow> nat option \<Rightarrow> session
     \<Rightarrow> int \<times> session" where
  "mqtt_subscribe tr topic_in qos cb ctx free_cb s =
     (let topic = mqtt_add_prefix (prefix s) topic_in in
      if \<not> is_connected s \<noteq> 0 then (- 1, s)
      else (let (retries, s') = mqtt_subscribe_loop tr topic qos 0 s in
            if retries = 3 then (- 1, s')
            else (0, s'\<lparr>subscription_list :=
                          mqtt_subscription_add (subscription_list s') topic cb ctx free_cb\<rparr>)))"

text \<open>\<open>mqtt_unsubscribe\<close> ends with \<open>return esp_mqtt_unsubscribe(topic);\<close>: the
  transport's boolean converted to \<open>int\<close>.\<close>

definition mqtt_unsubscribe :: "transport \<Rightarrow> string \<Rightarrow> session \<Rightarrow> int \<times> session" where
  "mqtt_unsubscribe tr topic_in s =
     (let topic = mqtt_add_prefix (prefix s) topic_in;
          (l, s1) = mqtt_subscription_remove (subscription_list s) topic s;
          s2 = s1\<lparr>subscription_list := l\<rparr>
      in if \<not> is_connected s2 \<noteq> 0 then (0, s2)
         else (let (ok, s3) = esp_mqtt_unsubscribe tr topic s2
               in (if ok then 1 else 0, s3)))"

subsection \<open>Transport callbacks\<close>

definition mqtt_status_cb :: "transport \<Rightarrow> esp_mqtt_status_t \<Rightarrow> session \<Rightarrow> error + session" where
  "mqtt_status_cb tr status s =
     (case status of
        ESP_MQTT_STATUS_CONNECTED \<Rightarrow>
          (let s1 = s\<lparr>is_connected := 1\<rparr> in
           case mqtt_publications_publish tr (publications_list s1) s1 of
             Inl e \<Rightarrow> Inl e
           | Inr (visited, s2) \<Rightarrow>
               (case mqtt_publications_free visited of
                  Inl e \<Rightarrow> Inl e
                | Inr l \<Rightarrow>
                    (let s3 = s2\<lparr>publications_list := l\<rparr>
                     in case on_connected_cb s3 of
                          Some f \<Rightarrow> Inr (s3\<lparr>trace := trace s3 @ [App_connected f]\<rparr>)
                        | None \<Rightarrow> Inr s3)))
      | ESP_MQTT_STATUS_DISCONNECTED \<Rightarrow>
          (let s1 = s\<lparr>is_connected := 0\<rparr>;
               (l, s2) = mqtt_subscriptions_free (subscription_list s1) s1;
               s3 = s2\<lparr>subscription_list := l\<rparr>
           in case on_disconnected_cb s3 of
                Some f \<Rightarrow> Inr (s3\<lparr>trace := trace s3 @ [App_disconnected f]\<rparr>)
              | None \<Rightarrow> Inr s3))"

text \<open>The loop of \<open>mqtt_message_cb\<close>. \<open>freed\<close> records that an earlier iteration went
  through the stripping branch of \<open>mqtt_remove_prefix\<close>, which frees \<open>topic_in\<close>; the
  \<open>strcmp\<close> of a later iteration then reads freed memory. The callback is called without
  a NULL test.\<close>

fun mqtt_message_loop ::
  "mqtt_subscription_t list \<Rightarrow> bool \<Rightarrow> string \<Rightarrow> uint8_t list \<Rightarrow> nat \<Rightarrow> session
     \<Rightarrow> error + session" where
  "mqtt_message_loop [] freed topic_in payload len s = Inr s"
| "mqtt_message_loop (cur # rest) freed topic_in payload len s =
     (if freed then Inl UseAfterFree
      else if sub_topic cur \<noteq> topic_in
      then mqtt_message_loop rest freed topic_in payload len s
      else (case mqtt_remove_prefix (prefix s) topic_in of
              Inl e \<Rightarrow> Inl e
            | Inr topic \<Rightarrow>
                (case sub_cb cur of
                   None \<Rightarrow> Inl NullCall
                 | Some f \<Rightarrow>
                     mqtt_message_loop rest (mqtt_remove_prefix_frees (prefix s) topic_in)
                       topic_in payload len
                       (s\<lparr>trace := trace s @ [App_message f topic payload len (sub_ctx cur)]\<rparr>))))"

definition mqtt_message_cb :: "string \<Rightarrow> uint8_t list \<Rightarrow> nat \<Rightarrow> session \<Rightarrow> error + session" where
  "mqtt_message_cb topic_in payload len s =
     mqtt_message_loop (subscription_list s) False topic_in payload len s"

subsection \<open>Connection control\<close>

definition mqtt_connect ::
  "string \<Rightarrow> 16 word \<Rightarrow> string \<Rightarrow> string option \<Rightarrow> string option \<Rightarrow> string option \<Rightarrow> session
     \<Rightarrow> int \<times> session" where
  "mqtt_connect host port client_id username password prefix_in s =
     (let s1 = s\<lparr>prefix := (case prefix_in of Some p \<Rightarrow> Some p | None \<Rightarrow> None)\<rparr>
      in (0, s1\<lparr>trace := trace s1 @ [Transport_start host port client_id username password]\<rparr>))"

definition mqtt_disconnect :: "session \<Rightarrow> int \<times> session" where
  "mqtt_disconnect s =
     (let s1 = s\<lparr>is_connected := 0\<rparr>
      in (0, s1\<lparr>trace := trace s1 @ [Transport_stop]\<rparr>))"

definition mqtt_initialize :: "session \<Rightarrow> int \<times> session" where
  "mqtt_initialize s = (0, s\<lparr>trace := trace s @ [Transport_init 256 2000]\<rparr>)"

subsection \<open>Runs of the module\<close>

text \<open>An event is one call into the module, by the application (the functions declared
  in mqtt.h) or by the transport (the two callbacks registered by \<open>mqtt_initialize\<close>).
  Every event runs to completion before the next one starts; the value an operation
  returns is dropped.\<close>

datatype event =
    Set_on_connected_cb "nat option"
  | Set_on_disconnected_cb "nat option"
  | Subscribe string int "nat option" "nat option" "nat option"
  | Unsubscribe string
  | Publish string "uint8_t list" nat int uint8_t
  | Connect string "16 word" string "string option" "string option" "string option"
  | Disconnect
  | Initialize
  | Status esp_mqtt_status_t
  | Message string "uint8_t list" nat

fun step :: "transport \<Rightarrow> event \<Rightarrow> session \<Rightarrow> error + session" where
  "step tr (Set_on_connected_cb cb) s = Inr (mqtt_set_on_connected_cb cb s)"
| "step tr (Set_on_disconnected_cb cb) s = Inr (mqtt_set_on_disconnected_cb cb s)"
| "step tr (Subscribe topic qos cb ctx free_cb) s =
     Inr (snd (mqtt_subscribe tr topic qos cb ctx free_cb s))"
| "step tr (Unsubscribe topic) s = Inr (snd (mqtt_unsubscribe tr topic s))"
| "step tr (Publish topic payload len qos retained) s =
     (case mqtt_publish tr topic payload len qos retained s of
        Inl e \<Rightarrow> Inl e
      | Inr (_, s') \<Rightarrow> Inr s')"
| "step tr (Connect host port client_id username password prefix_in) s =
     Inr (snd (mqtt_connect host port client_id username password prefix_in s))"
| "step tr Disconnect s = Inr (snd (mqtt_disconnect s))"
| "step tr Initialize s = Inr (snd (mqtt_initialize s))"
| "step tr (Status status) s = mqtt_status_cb tr status s"
| "step tr (Message topic payload len) s = mqtt_message_cb topic payload len s"

fun run :: "transport \<Rightarrow> event list \<Rightarrow> session \<Rightarrow> error + session" where
  "run tr [] s = Inr s"
| "run tr (e # es) s = (case step tr e s of Inl err \<Rightarrow> Inl err | Inr s' \<Rightarrow> run tr es s')"

subsection \<open>Descriptions of the outgoing calls\<close>

text \<open>The destructor call that freeing one subscription record makes, if any.\<close>

definition free_effect :: "mqtt_subscription_t \<Rightarrow> effect list" where
  "free_effect sub =
     (case (sub_ctx sub, sub_free_cb sub) of
        (Some c, Some f) \<Rightarrow> [App_free_ctx f c]
      | _ \<Rightarrow> [])"

text \<open>The transport call that \<open>mqtt_publish\<close> makes for a queued entry while connected,
  under prefix \<open>p\<close>.\<close>

definition queued_call :: "string option \<Rightarrow> mqtt_publications_t \<Rightarrow> effect" where
  "queued_call p e =
     Transport_publish (mqtt_add_prefix p (pub_topic e)) (pub_payload e) (pub_len e)
       (pub_qos e) (pub_retained e)"

section \<open>Basic facts about the list helpers and the loops\<close>

declare mqtt_subscribe_loop.simps [simp del]

lemma mqtt_subscription_free_eq:
  "mqtt_subscription_free sub s = s\<lparr>trace := trace s @ free_effect sub\<rparr>"
  by (simp add: mqtt_subscription_free_def free_effect_def split: option.splits)

lemma mqtt_subscriptions_free_eq:
  "mqtt_subscriptions_free l s = ([], s\<lparr>trace := trace s @ concat (map free_effect l)\<rparr>)"
  by (induction l arbitrary: s) (simp_all add: mqtt_subscription_free_eq)

lemma mqtt_publications_free_eq:
  "mqtt_publications_free (map (\<lambda>e. (e, b)) l) =
     (if b \<and> l \<noteq> [] then Inl DoubleFree else Inr [])"
  by (induction l) (auto simp: mqtt_publication_free_def)

lemma mqtt_subscription_remove_eq:
  "mqtt_subscription_remove l topic s =
     (takeWhile (\<lambda>r. take (length topic) (sub_topic r) \<noteq> topic) l
        @ tl (dropWhile (\<lambda>r. take (length topic) (sub_topic r) \<noteq> topic) l),
      s\<lparr>trace := trace s @
           (case dropWhile (\<lambda>r. take (length topic) (sub_topic r) \<noteq> topic) l of
              [] \<Rightarrow> [] | r # _ \<Rightarrow> free_effect r)\<rparr>)"
  by (induction l arbitrary: s) (simp_all add: strncmp_eq_def mqtt_subscription_free_eq)

text \<open>The retry loop touches nothing but the trace.\<close>

lemma mqtt_subscribe_loop_frame:
  "snd (mqtt_subscribe_loop tr topic qos r s) =
     s\<lparr>trace := trace (snd (mqtt_subscribe_loop tr topic qos r s))\<rparr>"
proof (induction tr topic qos r s rule: mqtt_subscribe_loop.induct)
  case (1 tr topic qos retries s)
  let ?t = "trace s @ [Transport_subscribe topic qos]"
  show ?case
  proof (cases "tr ?t \<noteq> True \<and> retries < 3")
    case True
    have "snd (mqtt_subscribe_loop tr topic qos (retries + 1) (s\<lparr>trace := ?t\<rparr>)) =
            (s\<lparr>trace := ?t\<rparr>)\<lparr>trace :=
               trace (snd (mqtt_subscribe_loop tr topic qos (retries + 1) (s\<lparr>trace := ?t\<rparr>)))\<rparr>"
      using True "1.IH"[of "(tr ?t, s\<lparr>trace := ?t\<rparr>)" "tr ?t" "s\<lparr>trace := ?t\<rparr>"]
      by (simp add: esp_mqtt_subscribe_def)
    moreover have "mqtt_subscribe_loop tr topic qos retries s =
        mqtt_subscribe_loop tr topic qos (retries + 1) (s\<lparr>trace := ?t\<rparr>)"
      using True by (subst mqtt_subscribe_loop.simps) (simp add: esp_mqtt_subscribe_def)
    ultimately show ?thesis by simp
  next
    case False
    have "mqtt_subscribe_loop tr topic qos retries s = (retries, s\<lparr>trace := ?t\<rparr>)"
      using False
      by (subst mqtt_subscribe_loop.simps) (auto simp add: esp_mqtt_subscribe_def Let_def)
    then show ?thesis by simp
  qed
qed

lemma mqtt_subscribe_frame:
  "is_connected (snd (mqtt_subscribe tr topic_in qos cb ctx free_cb s)) = is_connected s"
  "publications_list (snd (mqtt_subscribe tr topic_in qos cb ctx free_cb s)) = publications_list s"
proof -
  let ?topic = "mqtt_add_prefix (prefix s) topic_in"
  obtain r s' where l: "mqtt_subscribe_loop tr ?topic qos 0 s = (r, s')"
    by (cases "mqtt_subscribe_loop tr ?topic qos 0 s")
  then have "s' = s\<lparr>trace := trace s'\<rparr>"
    using mqtt_subscribe_loop_frame[of tr ?topic qos 0 s] by simp
  then have "is_connected s' = is_connected s" "publications_list s' = publications_list s"
    by (metis session.select_convs(4) session.surjective session.update_convs(7),
        metis session.select_convs(3) session.surjective session.update_convs(7))
  with l show
    "is_connected (snd (mqtt_subscribe tr topic_in qos cb ctx free_cb s)) = is_connected s"
    "publications_list (snd (mqtt_subscribe tr topic_in qos cb ctx free_cb s)) = publications_list s"
    by (simp_all add: mqtt_subscribe_def Let_def)
qed

lemma mqtt_unsubscribe_frame:
  "is_connected (snd (mqtt_unsubscribe tr topic_in s)) = is_connected s"
  "publications_list (snd (mqtt_unsubscribe tr topic_in s)) = publications_list s"
  by (simp_all add: mqtt_unsubscribe_def mqtt_subscription_remove_eq Let_def
      esp_mqtt_unsubscribe_def)

lemma mqtt_message_loop_frame:
  "mqtt_message_loop l freed topic_in payload len s = Inr s' \<Longrightarrow>
     is_connected s' = is_connected s \<and> publications_list s' = publications_list s"
proof (induction l arbitrary: freed s)
  case Nil
  then show ?case by simp
next
  case (Cons cur rest)
  then show ?case
    by (fastforce split: if_splits sum.splits option.splits)
qed

text \<open>While connected, the walk over the queue sends one transport call per entry, from the
  head of the list on, and cannot fail.\<close>

lemma mqtt_publications_publish_connected:
  "is_connected s \<noteq> 0 \<Longrightarrow>
     mqtt_publications_publish tr l s =
       Inr (map (\<lambda>e. (e, mqtt_add_prefix_frees (prefix s))) l,
            s\<lparr>trace := trace s @ map (queued_call (prefix s)) l\<rparr>)"
proof (induction l arbitrary: s)
  case Nil
  then show ?case by simp
next
  case (Cons cur rest)
  then show ?case
    by (simp add: mqtt_publish_def esp_mqtt_publish_def Let_def queued_call_def)
qed

text \<open>The connected event: with a prefix configured and a non-empty queue, the topics
  released during the walk are released again when the queue is freed. In every other
  session the handler runs to its end.\<close>

lemma mqtt_status_cb_connected_eq:
  "mqtt_status_cb tr ESP_MQTT_STATUS_CONNECTED s =
     (if mqtt_add_prefix_frees (prefix s) \<and> publications_list s \<noteq> [] then Inl DoubleFree
      else Inr (s\<lparr>is_connected := 1, publications_list := [],
             trace := trace s @ map (queued_call (prefix s)) (publications_list s)
                      @ (case on_connected_cb s of
                           Some f \<Rightarrow> [App_connected f] | None \<Rightarrow> [])\<rparr>))"
  by (simp add: mqtt_status_cb_def Let_def mqtt_publications_publish_connected
      mqtt_publications_free_eq split: option.splits)

lemma mqtt_status_cb_disconnected_eq:
  "mqtt_status_cb tr ESP_MQTT_STATUS_DISCONNECTED s =
     Inr (s\<lparr>is_connected := 0, subscription_list := [],
            trace := trace s @ concat (map free_effect (subscription_list s))
                      @ (case on_disconnected_cb s of
                           Some f \<Rightarrow> [App_disconnected f] | None \<Rightarrow> [])\<rparr>)"
  by (simp add: mqtt_status_cb_def Let_def mqtt_subscriptions_free_eq split: option.splits)

section \<open>The pending queue is empty while connected\<close>

lemma step_queue_inv:
  assumes "step tr e s = Inr s'"
    and "is_connected s \<noteq> 0 \<longrightarrow> publications_list s = []"
  shows "is_connected s' \<noteq> 0 \<longrightarrow> publications_list s' = []"
proof (cases e)
  case (Subscribe topic qos cb ctx free_cb)
  with assms show ?thesis by (auto simp: mqtt_subscribe_frame)
next
  case (Unsubscribe topic)
  with assms show ?thesis by (auto simp: mqtt_unsubscribe_frame)
next
  case (Publish topic payload len qos retained)
  with assms show ?thesis
    by (auto simp: mqtt_publish_def esp_mqtt_publish_def mqtt_publication_add_def Let_def
        split: if_splits sum.splits)
next
  case (Status status)
  with assms show ?thesis
    by (cases status)
      (auto simp: mqtt_status_cb_connected_eq mqtt_status_cb_disconnected_eq split: if_splits)
next
  case (Message topic payload len)
  with assms show ?thesis
    by (auto simp: mqtt_message_cb_def dest: mqtt_message_loop_frame)
qed (use assms in \<open>auto simp: mqtt_set_on_connected_cb_def mqtt_set_on_disconnected_cb_def
      mqtt_connect_def mqtt_disconnect_def mqtt_initialize_def Let_def\<close>)

lemma run_queue_inv:
  "run tr es s = Inr s' \<Longrightarrow> (is_connected s \<noteq> 0 \<longrightarrow> publications_list s = []) \<Longrightarrow>
     is_connected s' \<noteq> 0 \<longrightarrow> publications_list s' = []"
proof (induction es arbitrary: s)
  case Nil
  then show ?case by simp
next
  case (Cons e es)
  from Cons.prems(1) obtain s1 where s1: "step tr e s = Inr s1" and r: "run tr es s1 = Inr s'"
    by (auto split: sum.splits)
  from step_queue_inv[OF s1 Cons.prems(2)] Cons.IH[OF r] show ?case by blast
qed

section \<open>Flushing the pending queue (C1)\<close>

text \<open>
  Claim C1: the flush after the connected transition hands the queued publications to
  the transport once each, in the order they were enqueued, with the stored topic, payload,
  length, qos and retained flag, and then clears the queue.

  The code links every new entry at the head of the list and walks the list from the head,
  so the flush runs from the newest entry to the oldest. Two publications \<open>a\<close> then
  \<open>b\<close> made while disconnected reach the transport as \<open>b\<close> then \<open>a\<close>.
\<close>

theorem flush_reverses_enqueue_order:
  "run (\<lambda>_. True)
     [Publish ''a'' [1] 1 0 0, Publish ''b'' [2] 1 0 0, Status ESP_MQTT_STATUS_CONNECTED]
     initial_session =
   Inr (initial_session\<lparr>is_connected := 1,
          trace := [Transport_publish ''b'' [2] 1 0 0, Transport_publish ''a'' [1] 1 0 0]\<rparr>)"
  by (simp add: initial_session_def mqtt_publish_def mqtt_add_prefix_def
      mqtt_publication_add_def mqtt_status_cb_def esp_mqtt_publish_def
      mqtt_add_prefix_frees_def mqtt_publication_free_def)

text \<open>
  The flush goes through \<open>mqtt_publish\<close>, which adds the prefix to a stored topic that
  already carries it: with prefix \<open>home/\<close>, the entry queued for \<open>t\<close> is sent as
  \<open>home/home/t\<close>, and the walk leaves the entry with its topic block released.
\<close>

lemma flush_prefixes_stored_topic_again:
  "mqtt_publications_publish (\<lambda>_. True)
     [\<lparr>pub_topic = ''home/t'', pub_payload = [1, 2, 3], pub_len = 3, pub_qos = 0,
       pub_retained = 0\<rparr>]
     (initial_session\<lparr>prefix := Some ''home/'', is_connected := 1\<rparr>) =
   Inr ([(\<lparr>pub_topic = ''home/t'', pub_payload = [1, 2, 3], pub_len = 3, pub_qos = 0,
            pub_retained = 0\<rparr>, True)],
        initial_session\<lparr>prefix := Some ''home/'', is_connected := 1,
          trace := [Transport_publish ''home/home/t'' [1, 2, 3] 3 0 0]\<rparr>)"
  by (simp add: initial_session_def mqtt_publish_def mqtt_add_prefix_def
      mqtt_add_prefix_frees_def esp_mqtt_publish_def)

text \<open>
  Freeing the queue then releases that topic block a second time: the connected event
  after a publication queued under a prefix does not run to its end.
\<close>

lemma flush_frees_stored_topic_twice:
  "run (\<lambda>_. True)
     [Connect ''host'' 1883 ''id'' None None (Some ''home/''), Publish ''t'' [1, 2, 3] 3 0 0,
      Status ESP_MQTT_STATUS_CONNECTED]
     initial_session = Inl DoubleFree"
  by (simp add: initial_session_def mqtt_publish_def mqtt_add_prefix_def
      mqtt_publication_add_def mqtt_status_cb_connected_eq mqtt_add_prefix_frees_def
      mqtt_connect_def)

section \<open>Namespace round trip (C2)\<close>

text \<open>
  Claim C2: for a configured non-empty prefix P and every topic S, removing the prefix
  from \<open>addPrefix(S)\<close> gives S back.

  The code strips only when the leading bytes differ from the prefix, so a topic that
  starts with the prefix is returned as it is: with prefix \<open>home/\<close>, the topic
  \<open>lamp\<close> comes back as \<open>home/lamp\<close>.
\<close>

theorem remove_prefix_keeps_added_prefix:
  "mqtt_remove_prefix (Some ''home/'') (mqtt_add_prefix (Some ''home/'') ''lamp'') =
     Inr ''home/lamp''"
  by (simp add: mqtt_remove_prefix_def mqtt_add_prefix_def)

text \<open>
  The same holds for every non-empty prefix and every topic.
\<close>

lemma remove_prefix_add_prefix_general:
  "P \<noteq> [] \<Longrightarrow> mqtt_remove_prefix (Some P) (mqtt_add_prefix (Some P) S) = Inr (P @ S)"
  by (simp add: mqtt_remove_prefix_def mqtt_add_prefix_def)

section \<open>Message dispatch (C3)\<close>

text \<open>
  Claim C3: a message with topic T invokes the callback of every record whose topic
  equals T, once each and in registry order, with the prefix-stripped topic, the payload and
  the length, and invokes no other callback.

  With prefix \<open>home/\<close> and a subscription to \<open>lamp\<close>, the message on
  \<open>home/lamp\<close> reaches the callback with the topic \<open>home/lamp\<close>, prefix included.
\<close>

theorem dispatch_passes_unstripped_topic:
  "run (\<lambda>_. True)
     [Connect ''host'' 1883 ''id'' None None (Some ''home/''), Status ESP_MQTT_STATUS_CONNECTED,
      Subscribe ''lamp'' 0 (Some 7) None None, Message ''home/lamp'' [1] 1]
     initial_session =
   Inr (initial_session\<lparr>prefix := Some ''home/'', is_connected := 1,
          subscription_list :=
            [\<lparr>sub_topic = ''home/lamp'', sub_cb = Some 7, sub_ctx = None, sub_free_cb = None\<rparr>],
          trace := [Transport_start ''host'' 1883 ''id'' None None,
                    Transport_subscribe ''home/lamp'' 0,
                    App_message 7 ''home/lamp'' [1] 1 None]\<rparr>)"
  by (simp add: initial_session_def mqtt_connect_def mqtt_status_cb_def mqtt_subscribe_def
      mqtt_subscribe_loop.simps mqtt_add_prefix_def esp_mqtt_subscribe_def
      mqtt_subscription_add_def mqtt_message_cb_def mqtt_remove_prefix_def
      mqtt_remove_prefix_frees_def Let_def)

text \<open>
  The selection of the callbacks is as described: when the namespacer returns topic
  \<open>T'\<close> without freeing its argument, the records whose topic equals \<open>T\<close> are called
  once each, in list order, and no other record is.
\<close>

lemma mqtt_message_loop_matching:
  assumes "mqtt_remove_prefix (prefix s) T = Inr T'"
    and "\<not> mqtt_remove_prefix_frees (prefix s) T"
    and "\<forall>r\<in>set l. sub_topic r = T \<longrightarrow> sub_cb r \<noteq> None"
  shows "mqtt_message_loop l False T payload len s =
     Inr (s\<lparr>trace := trace s @
            map (\<lambda>r. App_message (the (sub_cb r)) T' payload len (sub_ctx r))
              (filter (\<lambda>r. sub_topic r = T) l)\<rparr>)"
  using assms
proof (induction l arbitrary: s)
  case Nil
  then show ?case by simp
next
  case (Cons cur rest)
  show ?case
  proof (cases "sub_topic cur = T")
    case False
    with Cons show ?thesis by simp
  next
    case True
    with Cons.prems obtain f where f: "sub_cb cur = Some f" by auto
    let ?s1 = "s\<lparr>trace := trace s @ [App_message f T' payload len (sub_ctx cur)]\<rparr>"
    have "mqtt_message_loop rest False T payload len ?s1 =
       Inr (?s1\<lparr>trace := trace ?s1 @
            map (\<lambda>r. App_message (the (sub_cb r)) T' payload len (sub_ctx r))
              (filter (\<lambda>r. sub_topic r = T) rest)\<rparr>)"
      using Cons.prems by (intro Cons.IH) simp_all
    with True f Cons.prems show ?thesis by simp
  qed
qed

section \<open>The registry while disconnected (C4)\<close>

text \<open>
  Claim C4: whenever the connectivity flag is false the subscription registry is empty,
  in particular after the disconnected event and after \<open>mqtt_disconnect\<close>.

  \<open>mqtt_disconnect\<close> clears the flag and stops the transport, and leaves the registry as
  it is: after a connected event, a successful subscribe and \<open>mqtt_disconnect\<close>, the flag
  is 0 and the registry still holds the record.
\<close>

theorem disconnect_keeps_registry:
  "run (\<lambda>_. True)
     [Status ESP_MQTT_STATUS_CONNECTED, Subscribe ''a'' 0 (Some 1) None None, Disconnect]
     initial_session =
   Inr (initial_session\<lparr>is_connected := 0,
          subscription_list :=
            [\<lparr>sub_topic = ''a'', sub_cb = Some 1, sub_ctx = None, sub_free_cb = None\<rparr>],
          trace := [Transport_subscribe ''a'' 0, Transport_stop]\<rparr>)"
  by (simp add: initial_session_def mqtt_status_cb_def mqtt_subscribe_def
      mqtt_subscribe_loop.simps mqtt_add_prefix_def esp_mqtt_subscribe_def
      mqtt_subscription_add_def mqtt_disconnect_def Let_def)

text \<open>
  The handler of the disconnected event does empty the registry.
\<close>

lemma disconnected_event_clears_registry:
  "\<exists>s'. mqtt_status_cb tr ESP_MQTT_STATUS_DISCONNECTED s = Inr s'
         \<and> is_connected s' = 0 \<and> subscription_list s' = []"
  by (simp add: mqtt_status_cb_disconnected_eq)

section \<open>The retry loop of subscribe (C5)\<close>

text \<open>
  Claim C5: while connected, subscribe retries with a bound of 3; against a transport
  that always rejects it makes the bounded number of calls, fails and creates no record; if
  an attempt within the bound succeeds it appends one record and returns success.

  The loop calls the transport before it tests the counter, so it makes a fourth call, and
  the test \<open>retries == 3\<close> after the loop does not look at the result of that call: when
  the transport rejects three times and accepts the fourth call (the third retry),
  \<open>mqtt_subscribe\<close> returns -1 and creates no record. Against a transport that always
  rejects it makes four calls.
\<close>

theorem subscribe_fails_when_last_retry_succeeds:
  "mqtt_subscribe (\<lambda>t. length t = 4) ''a'' 0 (Some 1) None None
       (initial_session\<lparr>is_connected := 1\<rparr>) =
     (- 1, initial_session\<lparr>is_connected := 1,
             trace := [Transport_subscribe ''a'' 0, Transport_subscribe ''a'' 0,
                       Transport_subscribe ''a'' 0, Transport_subscribe ''a'' 0]\<rparr>)
   \<and> mqtt_subscribe (\<lambda>_. False) ''a'' 0 (Some 1) None None
       (initial_session\<lparr>is_connected := 1\<rparr>) =
     (- 1, initial_session\<lparr>is_connected := 1,
             trace := [Transport_subscribe ''a'' 0, Transport_subscribe ''a'' 0,
                       Transport_subscribe ''a'' 0, Transport_subscribe ''a'' 0]\<rparr>)"
  by (simp add: initial_session_def mqtt_subscribe_def mqtt_subscribe_loop.simps
      mqtt_add_prefix_def esp_mqtt_subscribe_def Let_def)

text \<open>
  A success at the third call is reported as such.
\<close>

lemma subscribe_succeeds_within_three_attempts:
  "mqtt_subscribe (\<lambda>t. length t = 3) ''a'' 0 (Some 1) None None
       (initial_session\<lparr>is_connected := 1\<rparr>) =
     (0, initial_session\<lparr>is_connected := 1,
           subscription_list :=
             [\<lparr>sub_topic = ''a'', sub_cb = Some 1, sub_ctx = None, sub_free_cb = None\<rparr>],
           trace := [Transport_subscribe ''a'' 0, Transport_subscribe ''a'' 0,
                     Transport_subscribe ''a'' 0]\<rparr>)"
  by (simp add: initial_session_def mqtt_subscribe_def mqtt_subscribe_loop.simps
      mqtt_add_prefix_def esp_mqtt_subscribe_def mqtt_subscription_add_def Let_def)

section \<open>Subscribe while disconnected (C6)\<close>

text \<open>
  Claim C6: every call of subscribe made while the connectivity flag is false returns the
  failure value -1 and leaves the session, hence the registry, unchanged, whatever the
  topic, qos, callback and context are. No transport call is made either.
\<close>

theorem subscribe_disconnected_fails:
  "is_connected s = 0 \<Longrightarrow>
     mqtt_subscribe tr topic_in qos cb ctx free_cb s = (- 1, s)"
  by (simp add: mqtt_subscribe_def)

theorem subscribe_disconnected_fails_witness:
  "is_connected initial_session = 0 \<and>
   mqtt_subscribe (\<lambda>_. True) ''lamp'' 0 (Some 1) None None initial_session =
     (- 1, initial_session)"
proof -
  have h: "is_connected initial_session = 0"
    by (simp add: initial_session_def)
  from h subscribe_disconnected_fails[OF h] show ?thesis by simp
qed

section \<open>The pending queue while connected (C7)\<close>



section \<open>Publish (C8)\<close>

text \<open>
  Claim C8: publish namespaces the topic. While connected it makes exactly one transport
  call and returns 0 when the transport reports success and 1 when it reports failure,
  without touching the queue. While disconnected it copies \<open>len\<close> bytes of the payload
  into a new entry, adds the entry to the queue and returns 0, for every payload buffer
  that holds at least \<open>len\<close> bytes.
\<close>

theorem mqtt_publish_contract:
  "(is_connected s \<noteq> 0 \<longrightarrow>
      mqtt_publish tr topic_in payload len qos retained s =
        Inr (if tr (trace s @ [Transport_publish (mqtt_add_prefix (prefix s) topic_in)
                                 payload len qos retained])
             then 0 else 1,
             s\<lparr>trace := trace s @ [Transport_publish (mqtt_add_prefix (prefix s) topic_in)
                                      payload len qos retained]\<rparr>))
   \<and> (is_connected s = 0 \<and> len \<le> length payload \<longrightarrow>
      mqtt_publish tr topic_in payload len qos retained s =
        Inr (0, s\<lparr>publications_list :=
                    \<lparr>pub_topic = mqtt_add_prefix (prefix s) topic_in,
                     pub_payload = take len payload, pub_len = len, pub_qos = qos,
                     pub_retained = retained\<rparr> # publications_list s\<rparr>))"
  by (simp add: mqtt_publish_def esp_mqtt_publish_def mqtt_publication_add_def Let_def)

theorem mqtt_publish_contract_witness:
  "mqtt_publish (\<lambda>_. False) ''t'' [1, 2, 3] 3 0 1
       (initial_session\<lparr>prefix := Some ''home/'', is_connected := 1\<rparr>) =
     Inr (1, initial_session\<lparr>prefix := Some ''home/'', is_connected := 1,
               trace := [Transport_publish ''home/t'' [1, 2, 3] 3 0 1]\<rparr>)
   \<and> mqtt_publish (\<lambda>_. False) ''t'' [1, 2, 3] 3 0 1
       (initial_session\<lparr>prefix := Some ''home/''\<rparr>) =
     Inr (0, initial_session\<lparr>prefix := Some ''home/'',
               publications_list :=
                 [\<lparr>pub_topic = ''home/t'', pub_payload = [1, 2, 3], pub_len = 3,
                   pub_qos = 0, pub_retained = 1\<rparr>]\<rparr>)"
  using mqtt_publish_contract[where s = "initial_session\<lparr>prefix := Some ''home/'', is_connected := 1\<rparr>"
      and tr = "\<lambda>_. False" and topic_in = "''t''" and payload = "[1, 2, 3]" and len = 3
      and qos = 0 and retained = 1]
    mqtt_publish_contract[where s = "initial_session\<lparr>prefix := Some ''home/''\<rparr>"
      and tr = "\<lambda>_. False" and topic_in = "''t''" and payload = "[1, 2, 3]" and len = 3
      and qos = 0 and retained = 1]
  by (simp add: initial_session_def mqtt_add_prefix_def)

section \<open>Unsubscribe (C9)\<close>

text \<open>
  The list removal, in the two forms the statement of C9 uses.
\<close>

lemma mqtt_subscription_remove_none:
  "\<forall>r\<in>set l. take (length t) (sub_topic r) \<noteq> t \<Longrightarrow>
     mqtt_subscription_remove l t s = (l, s)"
  by (induction l) (simp_all add: strncmp_eq_def)

lemma mqtt_subscription_remove_first:
  "\<forall>y\<in>set ys. take (length t) (sub_topic y) \<noteq> t \<Longrightarrow>
   take (length t) (sub_topic r) = t \<Longrightarrow>
     mqtt_subscription_remove (ys @ r # zs) t s =
       (ys @ zs, s\<lparr>trace := trace s @ free_effect r\<rparr>)"
  by (induction ys) (simp_all add: strncmp_eq_def mqtt_subscription_free_eq)

lemma dropWhile_find_case:
  "(case dropWhile (\<lambda>r. \<not> P r) l of [] \<Rightarrow> [] | r # _ \<Rightarrow> f r) =
     (case find P l of None \<Rightarrow> [] | Some r \<Rightarrow> f r)"
  by (induction l) simp_all

text \<open>
  What \<open>mqtt_unsubscribe\<close> does, for every session: with \<open>t\<close> the namespaced topic,
  the first record whose topic starts with \<open>t\<close> is removed (none: the registry is
  unchanged) and its context destructor called, in both states; while disconnected no
  transport call is made and 0 is returned; while connected one transport unsubscribe call
  for \<open>t\<close> is made and the boolean it returns is converted to the \<open>int\<close> result.
\<close>

lemma mqtt_unsubscribe_effect:
  assumes "mqtt_unsubscribe tr topic_in s = (ret, s')"
    and "t = mqtt_add_prefix (prefix s) topic_in"
  shows "((\<forall>r\<in>set (subscription_list s). take (length t) (sub_topic r) \<noteq> t) \<longrightarrow>
            subscription_list s' = subscription_list s)
       \<and> (\<forall>ys r zs.
             subscription_list s = ys @ r # zs
             \<and> (\<forall>y\<in>set ys. take (length t) (sub_topic y) \<noteq> t)
             \<and> take (length t) (sub_topic r) = t \<longrightarrow>
             subscription_list s' = ys @ zs)
       \<and> trace s' = trace s
             @ (case find (\<lambda>r. take (length t) (sub_topic r) = t) (subscription_list s) of
                  None \<Rightarrow> [] | Some r \<Rightarrow> free_effect r)
             @ (if is_connected s = 0 then [] else [Transport_unsubscribe t])
       \<and> ret = (if is_connected s = 0 then 0 else if tr (trace s') then 1 else 0)
       \<and> is_connected s' = is_connected s"
proof (intro conjI impI allI)
  assume none: "\<forall>r\<in>set (subscription_list s). take (length t) (sub_topic r) \<noteq> t"
  from assms mqtt_subscription_remove_none[OF none, of s]
  show "subscription_list s' = subscription_list s"
    by (auto simp: mqtt_unsubscribe_def Let_def esp_mqtt_unsubscribe_def split: if_splits)
next
  fix ys r zs
  assume a: "subscription_list s = ys @ r # zs
             \<and> (\<forall>y\<in>set ys. take (length t) (sub_topic y) \<noteq> t)
             \<and> take (length t) (sub_topic r) = t"
  then have "mqtt_subscription_remove (subscription_list s) t s =
       (ys @ zs, s\<lparr>trace := trace s @ free_effect r\<rparr>)"
    using mqtt_subscription_remove_first[of ys t r zs s] by simp
  with assms show "subscription_list s' = ys @ zs"
    by (auto simp: mqtt_unsubscribe_def Let_def esp_mqtt_unsubscribe_def split: if_splits)
next
  from assms show tr: "trace s' = trace s
             @ (case find (\<lambda>r. take (length t) (sub_topic r) = t) (subscription_list s) of
                  None \<Rightarrow> [] | Some r \<Rightarrow> free_effect r)
             @ (if is_connected s = 0 then [] else [Transport_unsubscribe t])"
    by (auto simp: mqtt_unsubscribe_def Let_def esp_mqtt_unsubscribe_def
        mqtt_subscription_remove_eq
        dropWhile_find_case
        split: if_splits)
  from assms show "ret = (if is_connected s = 0 then 0 else if tr (trace s') then 1 else 0)"
    by (auto simp: mqtt_unsubscribe_def Let_def esp_mqtt_unsubscribe_def
        mqtt_subscription_remove_eq split: if_splits)
  from assms show "is_connected s' = is_connected s"
    by (auto simp: mqtt_unsubscribe_def Let_def esp_mqtt_unsubscribe_def
        mqtt_subscription_remove_eq split: if_splits)
qed

text \<open>
  Claim C9: unsubscribe namespaces the topic and removes the first registry record whose
  stored topic starts with the namespaced string, in both states; while disconnected it
  returns success; while connected it also asks the transport to unsubscribe and returns
  the transport's result.

  The registry part is as claimed. The result is not: the function ends with
  \<open>return esp_mqtt_unsubscribe(topic);\<close>, without the \<open>!= true\<close> of
  \<open>mqtt_publish\<close>. With prefix \<open>home/\<close> and records for \<open>home/lamp/1\<close> and
  \<open>home/lamp/2\<close>, \<open>mqtt_unsubscribe("lamp")\<close> removes the first record and calls the
  transport with \<open>home/lamp\<close>; when the transport reports failure the call returns 0, the
  value that means success everywhere else in the module, and when the transport reports
  success it returns 1.
\<close>

theorem unsubscribe_returns_inverted_result:
  "mqtt_unsubscribe (\<lambda>_. False) ''lamp''
       (initial_session\<lparr>prefix := Some ''home/'', is_connected := 1,
          subscription_list :=
            [\<lparr>sub_topic = ''home/lamp/1'', sub_cb = Some 1, sub_ctx = Some 10,
              sub_free_cb = Some 20\<rparr>,
             \<lparr>sub_topic = ''home/lamp/2'', sub_cb = Some 2, sub_ctx = None,
              sub_free_cb = None\<rparr>]\<rparr>) =
     (0, initial_session\<lparr>prefix := Some ''home/'', is_connected := 1,
           subscription_list :=
             [\<lparr>sub_topic = ''home/lamp/2'', sub_cb = Some 2, sub_ctx = None,
               sub_free_cb = None\<rparr>],
           trace := [App_free_ctx 20 10, Transport_unsubscribe ''home/lamp'']\<rparr>)
   \<and> mqtt_unsubscribe (\<lambda>_. True) ''lamp''
       (initial_session\<lparr>prefix := Some ''home/'', is_connected := 1,
          subscription_list :=
            [\<lparr>sub_topic = ''home/lamp/1'', sub_cb = Some 1, sub_ctx = Some 10,
              sub_free_cb = Some 20\<rparr>,
             \<lparr>sub_topic = ''home/lamp/2'', sub_cb = Some 2, sub_ctx = None,
              sub_free_cb = None\<rparr>]\<rparr>) =
     (1, initial_session\<lparr>prefix := Some ''home/'', is_connected := 1,
           subscription_list :=
             [\<lparr>sub_topic = ''home/lamp/2'', sub_cb = Some 2, sub_ctx = None,
               sub_free_cb = None\<rparr>],
           trace := [App_free_ctx 20 10, Transport_unsubscribe ''home/lamp'']\<rparr>)"
  by (simp add: initial_session_def mqtt_unsubscribe_def mqtt_add_prefix_def strncmp_eq_def
      mqtt_subscription_free_def esp_mqtt_unsubscribe_def Let_def)

text \<open>
  While disconnected the same call returns 0 as well, and makes no transport call.
\<close>

lemma unsubscribe_disconnected_returns_zero:
  "mqtt_unsubscribe (\<lambda>_. False) ''lamp''
       (initial_session\<lparr>prefix := Some ''home/'',
          subscription_list :=
            [\<lparr>sub_topic = ''home/lamp/2'', sub_cb = Some 2, sub_ctx = None,
              sub_free_cb = None\<rparr>]\<rparr>) =
     (0, initial_session\<lparr>prefix := Some ''home/''\<rparr>)"
  by (simp add: initial_session_def mqtt_unsubscribe_def mqtt_add_prefix_def strncmp_eq_def
      mqtt_subscription_free_def Let_def)

section \<open>Repeated status events (C10)\<close>

text \<open>
  Claim C10: the status handler does not look at the previous state: the outcome of
  either event is the same whatever the connectivity flag was before. A disconnected event
  always clears the flag, frees every registry record and calls the disconnected callback
  if one is registered. A connected event, in every session with no prefix configured or
  with an empty queue, sets the flag, sends every queued entry, clears the queue and calls
  the connected callback if one is registered. In particular, in every state reached from
  the initial session in which the flag is already set, a connected event runs to its end
  and calls the connected callback again.
\<close>

theorem status_cb_no_deduplication:
  "mqtt_status_cb tr status (s\<lparr>is_connected := b\<rparr>) = mqtt_status_cb tr status s
   \<and> (\<not> mqtt_add_prefix_frees (prefix s) \<or> publications_list s = [] \<longrightarrow>
        mqtt_status_cb tr ESP_MQTT_STATUS_CONNECTED s =
          Inr (s\<lparr>is_connected := 1, publications_list := [],
                 trace := trace s @ map (queued_call (prefix s)) (publications_list s)
                           @ (case on_connected_cb s of
                                Some f \<Rightarrow> [App_connected f] | None \<Rightarrow> [])\<rparr>))
   \<and> mqtt_status_cb tr ESP_MQTT_STATUS_DISCONNECTED s =
        Inr (s\<lparr>is_connected := 0, subscription_list := [],
               trace := trace s @ concat (map free_effect (subscription_list s))
                         @ (case on_disconnected_cb s of
                              Some f \<Rightarrow> [App_disconnected f] | None \<Rightarrow> [])\<rparr>)
   \<and> (run tr es initial_session = Inr c \<and> is_connected c \<noteq> 0 \<longrightarrow>
        mqtt_status_cb tr ESP_MQTT_STATUS_CONNECTED c =
          Inr (c\<lparr>is_connected := 1, publications_list := [],
                 trace := trace c
                           @ (case on_connected_cb c of
                                Some f \<Rightarrow> [App_connected f] | None \<Rightarrow> [])\<rparr>))"
proof (intro conjI impI)
  show "mqtt_status_cb tr status (s\<lparr>is_connected := b\<rparr>) = mqtt_status_cb tr status s"
    by (cases status) (simp_all add: mqtt_status_cb_connected_eq mqtt_status_cb_disconnected_eq)
next
  assume "\<not> mqtt_add_prefix_frees (prefix s) \<or> publications_list s = []"
  then show "mqtt_status_cb tr ESP_MQTT_STATUS_CONNECTED s =
          Inr (s\<lparr>is_connected := 1, publications_list := [],
                 trace := trace s @ map (queued_call (prefix s)) (publications_list s)
                           @ (case on_connected_cb s of
                                Some f \<Rightarrow> [App_connected f] | None \<Rightarrow> [])\<rparr>)"
    by (auto simp: mqtt_status_cb_connected_eq)
next
  show "mqtt_status_cb tr ESP_MQTT_STATUS_DISCONNECTED s =
        Inr (s\<lparr>is_connected := 0, subscription_list := [],
               trace := trace s @ concat (map free_effect (subscription_list s))
                         @ (case on_disconnected_cb s of
                              Some f \<Rightarrow> [App_disconnected f] | None \<Rightarrow> [])\<rparr>)"
    by (rule mqtt_status_cb_disconnected_eq)
next
  assume a: "run tr es initial_session = Inr c \<and> is_connected c \<noteq> 0"
  have "is_connected initial_session \<noteq> 0 \<longrightarrow> publications_list initial_session = []"
    by (simp add: initial_session_def)
  with a run_queue_inv[of tr es initial_session c] have "publications_list c = []"
    by blast
  then show "mqtt_status_cb tr ESP_MQTT_STATUS_CONNECTED c =
          Inr (c\<lparr>is_connected := 1, publications_list := [],
                 trace := trace c
                           @ (case on_connected_cb c of
                                Some f \<Rightarrow> [App_connected f] | None \<Rightarrow> [])\<rparr>)"
    by (simp add: mqtt_status_cb_connected_eq)
qed

theorem status_cb_no_deduplication_witness:
  "run (\<lambda>_. True)
       [Connect ''host'' 1883 ''id'' None None (Some ''home/''), Set_on_connected_cb (Some 5),
        Status ESP_MQTT_STATUS_CONNECTED]
       initial_session =
     Inr (initial_session\<lparr>prefix := Some ''home/'', is_connected := 1,
            on_connected_cb := Some 5,
            trace := [Transport_start ''host'' 1883 ''id'' None None, App_connected 5]\<rparr>)
   \<and> mqtt_status_cb (\<lambda>_. True) ESP_MQTT_STATUS_CONNECTED
       (initial_session\<lparr>prefix := Some ''home/'', is_connected := 1,
          on_connected_cb := Some 5,
          trace := [Transport_start ''host'' 1883 ''id'' None None, App_connected 5]\<rparr>) =
     Inr (initial_session\<lparr>prefix := Some ''home/'', is_connected := 1,
            on_connected_cb := Some 5,
            trace := [Transport_start ''host'' 1883 ''id'' None None, App_connected 5,
                      App_connected 5]\<rparr>)
   \<and> mqtt_status_cb (\<lambda>_. True) ESP_MQTT_STATUS_CONNECTED
       (initial_session\<lparr>publications_list :=
          [\<lparr>pub_topic = ''t'', pub_payload = [1, 2, 3], pub_len = 3, pub_qos = 0,
            pub_retained = 0\<rparr>]\<rparr>) =
     Inr (initial_session\<lparr>is_connected := 1,
            trace := [Transport_publish ''t'' [1, 2, 3] 3 0 0]\<rparr>)
   \<and> mqtt_status_cb (\<lambda>_. True) ESP_MQTT_STATUS_DISCONNECTED
       (initial_session\<lparr>on_disconnected_cb := Some 6\<rparr>) =
     Inr (initial_session\<lparr>on_disconnected_cb := Some 6, trace := [App_disconnected 6]\<rparr>)"
proof -
  let ?es = "[Connect ''host'' 1883 ''id'' None None (Some ''home/''),
              Set_on_connected_cb (Some 5), Status ESP_MQTT_STATUS_CONNECTED]"
  let ?C = "initial_session\<lparr>prefix := Some ''home/'', is_connected := 1,
              on_connected_cb := Some 5,
              trace := [Transport_start ''host'' 1883 ''id'' None None, App_connected 5]\<rparr>"
  let ?Q = "initial_session\<lparr>publications_list :=
              [\<lparr>pub_topic = ''t'', pub_payload = [1, 2, 3], pub_len = 3, pub_qos = 0,
                pub_retained = 0\<rparr>]\<rparr>"
  let ?D = "initial_session\<lparr>on_disconnected_cb := Some 6\<rparr>"
  have r: "run (\<lambda>_. True) ?es initial_session = Inr ?C"
    by (simp add: initial_session_def mqtt_connect_def mqtt_set_on_connected_cb_def
        mqtt_status_cb_def mqtt_publication_free_def Let_def)
  have c: "is_connected ?C \<noteq> 0"
    by simp
  have q: "\<not> mqtt_add_prefix_frees (prefix ?Q) \<or> publications_list ?Q = []"
    by (simp add: initial_session_def mqtt_add_prefix_frees_def)
  from r c status_cb_no_deduplication[where tr = "\<lambda>_. True" and es = ?es and c = ?C]
  have again: "mqtt_status_cb (\<lambda>_. True) ESP_MQTT_STATUS_CONNECTED ?C =
      Inr (?C\<lparr>is_connected := 1, publications_list := [],
              trace := trace ?C @ (case on_connected_cb ?C of
                                     Some f \<Rightarrow> [App_connected f] | None \<Rightarrow> [])\<rparr>)"
    by blast
  from q status_cb_no_deduplication[where tr = "\<lambda>_. True" and s = ?Q]
  have flush: "mqtt_status_cb (\<lambda>_. True) ESP_MQTT_STATUS_CONNECTED ?Q =
      Inr (?Q\<lparr>is_connected := 1, publications_list := [],
              trace := trace ?Q @ map (queued_call (prefix ?Q)) (publications_list ?Q)
                        @ (case on_connected_cb ?Q of
                             Some f \<Rightarrow> [App_connected f] | None \<Rightarrow> [])\<rparr>)"
    by blast
  from status_cb_no_deduplication[where tr = "\<lambda>_. True" and s = ?D]
  have disc: "mqtt_status_cb (\<lambda>_. True) ESP_MQTT_STATUS_DISCONNECTED ?D =
      Inr (?D\<lparr>is_connected := 0, subscription_list := [],
              trace := trace ?D @ concat (map free_effect (subscription_list ?D))
                        @ (case on_disconnected_cb ?D of
                             Some f \<Rightarrow> [App_disconnected f] | None \<Rightarrow> [])\<rparr>)"
    by blast
  from r again flush disc show ?thesis
    by (simp add: initial_session_def queued_call_def mqtt_add_prefix_def)
qed

text \<open>
  With a prefix configured and a non-empty queue the handler of the connected event stops
  at the second release of a queued topic, before the callback; this too is the same
  whatever the flag was before.
\<close>

lemma connected_event_double_free:
  "mqtt_add_prefix_frees (prefix s) \<Longrightarrow> publications_list s \<noteq> [] \<Longrightarrow>
     mqtt_status_cb tr ESP_MQTT_STATUS_CONNECTED s = Inl DoubleFree"
  by (simp add: mqtt_status_cb_connected_eq)

end
